theory Spec2Isabelle
  imports Main "HOL-Library.Sublist" "HOL-Library.List_Lexorder"
begin

section \<open>Python strings\<close>

text \<open>
  A Python \<^verbatim>\<open>str\<close> is a sequence of Unicode code points, so it is modelled as a list of
  integers (\<open>len\<close> is \<open>length\<close>, and the security name of a report row may hold any
  code point). \<open>U\<close> reads an ASCII literal as such a string.
\<close>

type_synonym pystr = "int list"

definition U :: "string \<Rightarrow> pystr" where
  "U s = map of_char s"

text \<open>
  \<^verbatim>\<open>str.isspace\<close> of one code point, which decides what \<^verbatim>\<open>str.strip()\<close> removes: the
  code points with bidirectional class WS, B or S or category Zs.
\<close>

definition py_isspace :: "int \<Rightarrow> bool" where
  "py_isspace c \<longleftrightarrow>
     (9 \<le> c \<and> c \<le> 13) \<or> (28 \<le> c \<and> c \<le> 32) \<or> c = 133 \<or> c = 160 \<or> c = 5760 \<or>
     (8192 \<le> c \<and> c \<le> 8202) \<or> c = 8232 \<or> c = 8233 \<or> c = 8239 \<or> c = 8287 \<or> c = 12288"

definition str_strip :: "pystr \<Rightarrow> pystr" where
  "str_strip s = rev (dropWhile py_isspace (rev (dropWhile py_isspace s)))"

text \<open>
  \<^verbatim>\<open>s.replace(old, "")\<close> for a non-empty \<open>old\<close>: the occurrences are found from the left
  and do not overlap.
\<close>

fun str_remove :: "pystr \<Rightarrow> pystr \<Rightarrow> pystr" where
  "str_remove old [] = []"
| "str_remove old (c # cs) =
     (if old \<noteq> [] \<and> prefix old (c # cs) then str_remove old (drop (length old - 1) cs)
      else c # str_remove old cs)"

text \<open>
  The code points of category Nd come in runs of ten, one run for each script; the list
  holds the digit zero of each run (Unicode 14, the table of CPython 3.11). The
  pattern \<^verbatim>\<open>\d\<close> of \<^verbatim>\<open>re\<close> matches exactly these code points, and \<^verbatim>\<open>int\<close> and
  \<^verbatim>\<open>decimal.Decimal\<close> read each of them as its decimal value.
\<close>

definition decimal_zeros :: "int list" where
  "decimal_zeros =
    [48, 1632, 1776, 1984, 2406, 2534, 2662, 2790, 2918, 3046, 3174, 3302, 3430, 3558, 3664,
     3792, 3872, 4160, 4240, 6112, 6160, 6470, 6608, 6784, 6800, 6992, 7088, 7232, 7248,
     42528, 43216, 43264, 43472, 43504, 43600, 44016, 65296, 66720, 68912, 69734, 69872,
     69942, 70096, 70384, 70736, 70864, 71248, 71360, 71472, 71904, 72016, 72784, 73040,
     73120, 92768, 92864, 93008, 120782, 120792, 120802, 120812, 120822, 123200, 123632,
     125264, 130032]"

definition digit_value :: "int \<Rightarrow> int option" where
  "digit_value c = map_option (\<lambda>z. c - z) (find (\<lambda>z. z \<le> c \<and> c < z + 10) decimal_zeros)"

definition is_digit :: "int \<Rightarrow> bool" where
  "is_digit c \<longleftrightarrow> digit_value c \<noteq> None"

definition digits_value :: "pystr \<Rightarrow> int" where
  "digits_value ds = foldl (\<lambda>n c. 10 * n + (case digit_value c of Some d \<Rightarrow> d | None \<Rightarrow> 0)) 0 ds"

text \<open>\<^verbatim>\<open>str(n)\<close> of a non-negative integer.\<close>

function nat_str :: "int \<Rightarrow> pystr" where
  "nat_str n = (if n < 10 then [48 + n] else nat_str (n div 10) @ [48 + n mod 10])"
  by pat_completeness auto
termination
  by (relation "measure nat") auto

declare nat_str.simps [simp del]

section \<open>Identifiers and cleaning (\<^verbatim>\<open>is_id\<close>, \<^verbatim>\<open>clean\<close>)\<close>

text \<open>
  \<^verbatim>\<open>re.match(r"^\d+[A-Z]?", stock_id)\<close>: the pattern is anchored at the start only, needs
  one digit or more there, and its optional letter and the open end never make it fail.
\<close>

definition re_match_id :: "pystr \<Rightarrow> bool" where
  "re_match_id s \<longleftrightarrow> takeWhile is_digit s \<noteq> []"

definition is_id :: "pystr \<Rightarrow> bool" where
  "is_id stock_id =
     (if length stock_id \<le> 0 then False
      else if \<not> re_match_id stock_id then False
      else if length stock_id > 4 \<and> prefix (U ''7'') stock_id then False
      else if \<not> prefix (U ''0'') stock_id then True
      else prefix (U ''00'') stock_id \<or> prefix (U ''01'') stock_id \<or> prefix (U ''02'') stock_id)"

text \<open>
  \<^verbatim>\<open>re.match(r'="([^"]*)"', text)\<close> followed by \<^verbatim>\<open>text = m.group(1)\<close>, for the quote
  character \<open>q\<close>: the text must start with \<^verbatim>\<open>=\<close> and the quote, and a closing quote must
  follow; group 1 is what stands before the first closing quote.
\<close>

definition unquote :: "int \<Rightarrow> pystr \<Rightarrow> pystr" where
  "unquote q text =
     (case text of
        e # q' # rest \<Rightarrow> if e = 61 \<and> q' = q \<and> q \<in> set rest then takeWhile (\<lambda>c. c \<noteq> q) rest else text
      | _ \<Rightarrow> text)"

definition clean :: "pystr \<Rightarrow> pystr" where
  "clean text =
     str_strip
       (str_remove [8857]
         (str_remove [8853]
           (str_remove (U ''&nbsp;'')
             (str_remove [9]
               (str_remove (U '','')
                 (str_remove (U '' '')
                   (unquote 39 (unquote 34 text))))))))"

section \<open>Numbers of the report (\<^verbatim>\<open>_safe_int\<close>, \<^verbatim>\<open>_safe_decimal\<close>, \<^verbatim>\<open>to_decimal\<close>)\<close>

datatype exn = RequestException | ValueError | OverflowError | IntegrityError | TypeError

text \<open>\<^verbatim>\<open>s.split(sep)\<close> for a separator of one code point.\<close>

fun str_split :: "int \<Rightarrow> pystr \<Rightarrow> pystr list" where
  "str_split sep [] = [[]]"
| "str_split sep (c # cs) =
     (if c = sep then [] # str_split sep cs
      else (case str_split sep cs of g # gs \<Rightarrow> (c # g) # gs | [] \<Rightarrow> [[c]]))"

text \<open>A leading \<^verbatim>\<open>+\<close> or \<^verbatim>\<open>-\<close>: whether the sign is negative, and the rest.\<close>

definition split_sign :: "pystr \<Rightarrow> bool \<times> pystr" where
  "split_sign s =
     (case s of
        c # r \<Rightarrow> if c = 45 then (True, r) else if c = 43 then (False, r) else (False, s)
      | [] \<Rightarrow> (False, s))"

text \<open>
  \<^verbatim>\<open>int(value)\<close> of a string, in base ten; \<open>None\<close> is its \<^verbatim>\<open>ValueError\<close>. White space
  around the number is dropped, a sign may lead, single underscores may stand between
  digits, and a number of more than 4300 digits is refused (the default limit of
  \<^verbatim>\<open>sys.get_int_max_str_digits()\<close>).
\<close>

definition py_int :: "pystr \<Rightarrow> int option" where
  "py_int s =
     (let (neg, body) = split_sign (str_strip s);
          groups = str_split 95 body;
          ds = concat groups
      in if [] \<in> set groups \<or> \<not> list_all is_digit ds \<or> int (length ds) > 4300 then None
         else Some (if neg then - digits_value ds else digits_value ds))"

definition safe_int :: "pystr \<Rightarrow> int option" where
  "safe_int value0 =
     (let value = clean value0
      in if value = [] then None else py_int value)"

text \<open>
  A \<^verbatim>\<open>decimal.Decimal\<close>: a finite number (sign, coefficient, exponent), an infinity, or a
  NaN (sign, signalling, payload; payload 0 prints as no payload).
\<close>

datatype pydecimal = Finite bool int int | Infinite bool | NaN bool bool int

definition ascii_lower :: "int \<Rightarrow> int" where
  "ascii_lower c = (if 65 \<le> c \<and> c \<le> 90 then c + 32 else c)"

definition EMAX :: int where
  "EMAX = 999999999999999999"

definition ETINY :: int where
  "ETINY = - 1999999999999999997"

text \<open>The exponent part of a numeric string: nothing, or \<^verbatim>\<open>E\<close>, a sign and digits.\<close>

definition exponent_part :: "pystr \<Rightarrow> int option" where
  "exponent_part s =
     (case s of
        [] \<Rightarrow> Some 0
      | c # r \<Rightarrow>
          if ascii_lower c \<noteq> 101 then None
          else (let (neg, ds) = split_sign r
                in if ds = [] \<or> \<not> list_all is_digit ds then None
                   else Some (if neg then - digits_value ds else digits_value ds)))"

definition nan_payload :: "bool \<Rightarrow> bool \<Rightarrow> pystr \<Rightarrow> pydecimal option" where
  "nan_payload neg signal ds =
     (if list_all is_digit ds then Some (NaN neg signal (digits_value ds)) else None)"

definition finite_number :: "bool \<Rightarrow> pystr \<Rightarrow> pydecimal option" where
  "finite_number neg body =
     (let ip = takeWhile is_digit body;
          r1 = dropWhile is_digit body;
          (fp, r2) = (case r1 of
                        c # r \<Rightarrow> if c = 46 then (takeWhile is_digit r, dropWhile is_digit r)
                                 else ([], r1)
                      | [] \<Rightarrow> ([], []))
      in if ip = [] \<and> fp = [] then None
         else (case exponent_part r2 of
                 None \<Rightarrow> None
               | Some ex \<Rightarrow>
                   (let coeff = digits_value (ip @ fp);
                        e = ex - int (length fp);
                        nd = int (length (nat_str coeff))
                    in if e < ETINY \<or> (if coeff = 0 then e > EMAX else e + nd - 1 > EMAX)
                       then None
                       else Some (Finite neg coeff e))))"

text \<open>
  \<^verbatim>\<open>decimal.Decimal(value)\<close> of a string; \<open>None\<close> is \<^verbatim>\<open>decimal.InvalidOperation\<close>.
  White space around the number is dropped and every underscore is ignored; the
  conversion is exact, so a number outside the exponent range is refused.
\<close>

definition Decimal :: "pystr \<Rightarrow> pydecimal option" where
  "Decimal value =
     (let (neg, body) = split_sign (filter (\<lambda>c. c \<noteq> 95) (str_strip value));
          low = map ascii_lower body
      in if low = U ''inf'' \<or> low = U ''infinity'' then Some (Infinite neg)
         else if prefix (U ''nan'') low then nan_payload neg False (drop 3 body)
         else if prefix (U ''snan'') low then nan_payload neg True (drop 4 body)
         else finite_number neg body)"

text \<open>\<^verbatim>\<open>str(d)\<close> of a \<^verbatim>\<open>Decimal\<close>: the scientific string of the decimal arithmetic standard.\<close>

definition decimal_str :: "pydecimal \<Rightarrow> pystr" where
  "decimal_str d =
     (case d of
        Infinite neg \<Rightarrow> (if neg then U ''-'' else []) @ U ''Infinity''
      | NaN neg signal payload \<Rightarrow>
          (if neg then U ''-'' else []) @ (if signal then U ''sNaN'' else U ''NaN'')
            @ (if payload = 0 then [] else nat_str payload)
      | Finite neg coeff e \<Rightarrow>
          (let c = nat_str coeff;
               leftdigits = e + int (length c);
               dotplace = (if e \<le> 0 \<and> leftdigits > - 6 then leftdigits else 1);
               intpart = (if dotplace \<le> 0 then U ''0''
                          else if dotplace \<ge> int (length c)
                            then c @ replicate (nat (dotplace - int (length c))) 48
                          else take (nat dotplace) c);
               fracpart = (if dotplace \<le> 0 then U ''.'' @ replicate (nat (- dotplace)) 48 @ c
                           else if dotplace \<ge> int (length c) then []
                           else U ''.'' @ drop (nat dotplace) c);
               ex = (if leftdigits = dotplace then []
                     else if leftdigits < dotplace then U ''E-'' @ nat_str (dotplace - leftdigits)
                     else U ''E+'' @ nat_str (leftdigits - dotplace))
           in (if neg then U ''-'' else []) @ intpart @ fracpart @ ex))"

definition to_decimal :: "pystr \<Rightarrow> pystr option" where
  "to_decimal value = map_option decimal_str (Decimal value)"

definition safe_decimal :: "pystr \<Rightarrow> pystr option" where
  "safe_decimal value0 =
     (let value = clean value0
      in if value = [] \<or> value = U ''---'' \<or> value = U ''--'' then None else to_decimal value)"

text \<open>
  \<^verbatim>\<open>float(s) <= 0\<close> for a string \<open>s\<close> that \<open>to_decimal\<close> returned, the only strings the
  validators pass to \<^verbatim>\<open>float\<close>; such a string is read back with the grammar that wrote it.
  \<^verbatim>\<open>float\<close> raises \<^verbatim>\<open>ValueError\<close> on a signalling NaN and on a NaN with a payload; a NaN
  compares false; a finite value is rounded to the nearest double, so it compares as
  zero exactly when it is at most \<open>2 ^ -1075\<close>, half of the least positive double.
\<close>

definition float_le_zero :: "pystr \<Rightarrow> exn + bool" where
  "float_le_zero s =
     (case Decimal s of
        None \<Rightarrow> Inl ValueError
      | Some (NaN neg signal payload) \<Rightarrow> if signal \<or> payload \<noteq> 0 then Inl ValueError else Inr False
      | Some (Infinite neg) \<Rightarrow> Inr neg
      | Some (Finite neg coeff e) \<Rightarrow>
          Inr (neg \<or> coeff = 0 \<or> (e < 0 \<and> coeff * 2 ^ 1075 \<le> 10 ^ nat (- e))))"

text \<open>
  \<^verbatim>\<open>float(a) <= 0 or float(b) <= 0 or ...\<close>: evaluated from the left, stopping at the
  first operand that is true or raises.
\<close>

fun any_le_zero :: "pystr list \<Rightarrow> exn + bool" where
  "any_le_zero [] = Inr False"
| "any_le_zero (s # ss) =
     (case float_le_zero s of
        Inl e \<Rightarrow> Inl e
      | Inr True \<Rightarrow> Inr True
      | Inr False \<Rightarrow> any_le_zero ss)"

section \<open>Row validation\<close>

text \<open>
  What one report row contributes once it has passed every check of the row loop: the
  values bound to the \<^verbatim>\<open>INSERT INTO quote\<close> and to the \<^verbatim>\<open>stock\<close> upsert.
\<close>

record candidate =
  c_id :: pystr
  c_name :: pystr
  c_volume :: int
  c_turnover :: int
  c_open :: pystr
  c_high :: pystr
  c_low :: pystr
  c_close :: pystr
  c_delta :: "pystr option"
  c_tickcount :: int

text \<open>
  The body of the row loop of \<^verbatim>\<open>update_daily_twse_quotes\<close> up to the first
  \<^verbatim>\<open>db.execute\<close>: \<open>Inr None\<close> is \<^verbatim>\<open>continue\<close>, \<open>Inl e\<close> an exception that leaves the loop
  (only \<^verbatim>\<open>float\<close> can raise here), \<open>Inr (Some c)\<close> the row to insert.
\<close>

definition parse_twse_row :: "pystr list \<Rightarrow> exn + candidate option" where
  "parse_twse_row row =
     (if length row < 11 then Inr None
      else if \<not> is_id (clean (row ! 0)) then Inr None
      else
        (case safe_int (row ! 2) of None \<Rightarrow> Inr None | Some volume \<Rightarrow>
         if volume \<le> 0 then Inr None
         else
          (case safe_decimal (row ! 5) of None \<Rightarrow> Inr None | Some opening \<Rightarrow>
           case safe_int (row ! 4) of None \<Rightarrow> Inr None | Some turnover \<Rightarrow>
           case safe_decimal (row ! 6) of None \<Rightarrow> Inr None | Some high \<Rightarrow>
           case safe_decimal (row ! 7) of None \<Rightarrow> Inr None | Some low \<Rightarrow>
           case safe_decimal (row ! 8) of None \<Rightarrow> Inr None | Some closing \<Rightarrow>
           case safe_int (row ! 3) of None \<Rightarrow> Inr None | Some tickcount \<Rightarrow>
           case any_le_zero [opening, high, low, closing] of
             Inl e \<Rightarrow> Inl e
           | Inr True \<Rightarrow> Inr None
           | Inr False \<Rightarrow>
               Inr (Some \<lparr>c_id = clean (row ! 0), c_name = clean (row ! 1),
                          c_volume = volume, c_turnover = turnover, c_open = opening,
                          c_high = high, c_low = low, c_close = closing,
                          c_delta = (if clean (row ! 9) = U ''X'' then None
                                     else safe_decimal (row ! 10)),
                          c_tickcount = tickcount\<rparr>))))"


section \<open>Dates\<close>

text \<open>
  A \<^verbatim>\<open>datetime.date\<close> is modelled by its proleptic Gregorian ordinal
  (\<^verbatim>\<open>date.toordinal()\<close>), so that adding \<^verbatim>\<open>timedelta(days=1)\<close> is \<open>+ 1\<close> and the order
  of dates is the order of integers. The store keeps a date as its ISO text, whose text
  order is the order of the dates. The upper end of the range of \<^verbatim>\<open>datetime.date\<close>
  (year 9999) is not modelled.
\<close>

type_synonym date = int

definition is_leap :: "int \<Rightarrow> bool" where
  "is_leap y \<longleftrightarrow> y mod 4 = 0 \<and> (y mod 100 \<noteq> 0 \<or> y mod 400 = 0)"

definition days_in_month :: "int \<Rightarrow> int \<Rightarrow> int" where
  "days_in_month y m =
     (if m = 2 then (if is_leap y then 29 else 28)
      else if m = 4 \<or> m = 6 \<or> m = 9 \<or> m = 11 then 30 else 31)"

definition days_before_year :: "int \<Rightarrow> int" where
  "days_before_year y = (y - 1) * 365 + (y - 1) div 4 - (y - 1) div 100 + (y - 1) div 400"

definition days_before_month :: "int \<Rightarrow> int \<Rightarrow> int" where
  "days_before_month y m = sum_list (map (days_in_month y) [1..m - 1])"

definition ymd2ord :: "int \<Rightarrow> int \<Rightarrow> int \<Rightarrow> date" where
  "ymd2ord y m d = days_before_year y + days_before_month y m + d"


section \<open>The store\<close>

text \<open>
  Modelled from the spec: the schema of the database file is not in the repository.
  Its section 6 gives \<^verbatim>\<open>stock(ID PK, name, market, mindate, maxdate)\<close> and
  \<^verbatim>\<open>quote(ID, date, open, high, low, close, volume, turnover, delta, tickcount)\<close> with the
  composite key \<^verbatim>\<open>(ID, date)\<close>; no other constraint is assumed. A table is the list of its
  rows in the order of insertion.
\<close>

record stock_row =
  s_id :: pystr
  s_name :: pystr
  s_market :: pystr
  s_mindate :: date
  s_maxdate :: date

record quote_row =
  q_id :: pystr
  q_date :: date
  q_volume :: "int option"
  q_turnover :: "int option"
  q_open :: "pystr option"
  q_high :: "pystr option"
  q_low :: "pystr option"
  q_close :: "pystr option"
  q_delta :: "pystr option"
  q_tickcount :: "int option"

record database =
  stock :: "stock_row list"
  quote :: "quote_row list"



text \<open>\<^verbatim>\<open>SELECT 1 FROM quote WHERE ID = ? AND date = ?\<close>, \<^verbatim>\<open>fetchone()\<close> taken as a truth value.\<close>

definition select_marker :: "database \<Rightarrow> pystr \<Rightarrow> date \<Rightarrow> bool" where
  "select_marker db market d \<longleftrightarrow> list_ex (\<lambda>r. q_id r = market \<and> q_date r = d) (quote db)"







text \<open>
  \<^verbatim>\<open>INSERT OR IGNORE INTO stock (ID, name, market, mindate, maxdate) VALUES (?, ?, ?, ?, ?)\<close>,
  with the \<^verbatim>\<open>rowcount\<close> of its cursor.
\<close>

definition insert_or_ignore_stock ::
  "pystr \<Rightarrow> pystr \<Rightarrow> pystr \<Rightarrow> date \<Rightarrow> date \<Rightarrow> database \<Rightarrow> int \<times> database" where
  "insert_or_ignore_stock i n m mind maxd db =
     (if list_ex (\<lambda>s. s_id s = i) (stock db) then (0, db)
      else (1, db\<lparr>stock := stock db @
              [\<lparr>s_id = i, s_name = n, s_market = m, s_mindate = mind, s_maxdate = maxd\<rparr>]\<rparr>))"


text \<open>\<^verbatim>\<open>UPDATE stock SET maxdate = ? WHERE ID = ?\<close>\<close>

definition update_stock_maxdate :: "date \<Rightarrow> pystr \<Rightarrow> database \<Rightarrow> database" where
  "update_stock_maxdate d i db =
     db\<lparr>stock := map (\<lambda>s. if s_id s = i then s\<lparr>s_maxdate := d\<rparr> else s) (stock db)\<rparr>"

definition marker_quote :: "pystr \<Rightarrow> date \<Rightarrow> nat \<Rightarrow> quote_row" where
  "marker_quote market d count =
     \<lparr>q_id = market, q_date = d, q_volume = Some (int count), q_turnover = None, q_open = None,
      q_high = None, q_low = None, q_close = None, q_delta = None, q_tickcount = None\<rparr>"

text \<open>
  \<^verbatim>\<open>INSERT OR REPLACE INTO quote (ID, date, volume) VALUES (?, ?, ?)\<close>: a row that holds the
  key is deleted, the new row is inserted, its other columns NULL.
\<close>

definition insert_or_replace_quote :: "pystr \<Rightarrow> date \<Rightarrow> nat \<Rightarrow> database \<Rightarrow> database" where
  "insert_or_replace_quote i d count db =
     db\<lparr>quote := filter (\<lambda>r. \<not> (q_id r = i \<and> q_date r = d)) (quote db) @ [marker_quote i d count]\<rparr>"

definition upsert_market_marker :: "pystr \<Rightarrow> date \<Rightarrow> nat \<Rightarrow> database \<Rightarrow> database" where
  "upsert_market_marker market d count db =
     insert_or_replace_quote market d count
       (update_stock_maxdate d market
          (snd (insert_or_ignore_stock market market market d d db)))"

section \<open>Single-day sync\<close>









section \<open>The orchestrator (\<^verbatim>\<open>continue_update_quotes\<close>)\<close>









section \<open>Queries (\<^verbatim>\<open>to_date\<close>, \<^verbatim>\<open>_build_stock_where\<close>, \<^verbatim>\<open>count_stocks\<close>, \<^verbatim>\<open>list_stocks\<close>)\<close>

text \<open>
  An argument of a query: \<^verbatim>\<open>None\<close>, a string, a \<^verbatim>\<open>date\<close>, a \<^verbatim>\<open>datetime\<close> (by its date
  part), or an object of another type.
\<close>

datatype pyvalue = PyNone | PyStr pystr | PyDate date | PyDatetime date | PyOther

text \<open>
  The month and the day of \<^verbatim>\<open>strptime\<close>: the alternatives
  \<^verbatim>\<open>1[0-2]|0[1-9]|[1-9]\<close> and \<^verbatim>\<open>3[0-1]|[1-2]\d|0[1-9]|[1-9]| [1-9]\<close> in their order; the value
  read and the rest of the text.
\<close>

definition in_range :: "int \<Rightarrow> int \<Rightarrow> int \<Rightarrow> bool" where
  "in_range lo hi c \<longleftrightarrow> lo \<le> c \<and> c \<le> hi"

fun match_month :: "pystr \<Rightarrow> (int \<times> pystr) option" where
  "match_month (a # b # r) =
     (if a = 49 \<and> in_range 48 50 b then Some (digits_value [a, b], r)
      else if a = 48 \<and> in_range 49 57 b then Some (digits_value [a, b], r)
      else if in_range 49 57 a then Some (digits_value [a], b # r)
      else None)"
| "match_month [a] = (if in_range 49 57 a then Some (digits_value [a], []) else None)"
| "match_month [] = None"

fun match_day :: "pystr \<Rightarrow> (int \<times> pystr) option" where
  "match_day (a # b # r) =
     (if a = 51 \<and> in_range 48 49 b then Some (digits_value [a, b], r)
      else if in_range 49 50 a \<and> is_digit b then Some (digits_value [a, b], r)
      else if a = 48 \<and> in_range 49 57 b then Some (digits_value [a, b], r)
      else if in_range 49 57 a then Some (digits_value [a], b # r)
      else if a = 32 \<and> in_range 49 57 b then Some (digits_value [b], r)
      else None)"
| "match_day [a] = (if in_range 49 57 a then Some (digits_value [a], []) else None)"
| "match_day [] = None"

text \<open>
  \<^verbatim>\<open>datetime.datetime.strptime(value, "%Y-%m-%d").date()\<close>; \<open>None\<close> is its \<^verbatim>\<open>ValueError\<close>
  (no match, text left over, or no such day).
\<close>

definition strptime_ymd :: "pystr \<Rightarrow> date option" where
  "strptime_ymd s =
     (if length s < 5 \<or> \<not> list_all is_digit (take 4 s) \<or> s ! 4 \<noteq> 45 then None
      else
        (case match_month (drop 5 s) of
           None \<Rightarrow> None
         | Some (m, r1) \<Rightarrow>
             (case r1 of
                [] \<Rightarrow> None
              | dash # r2 \<Rightarrow>
                  if dash \<noteq> 45 then None
                  else
                    (case match_day r2 of
                       None \<Rightarrow> None
                     | Some (dd, r3) \<Rightarrow>
                         (let y = digits_value (take 4 s)
                          in if r3 \<noteq> [] \<or> y < 1 \<or> dd > days_in_month y m then None
                             else Some (ymd2ord y m dd))))))"

definition to_date :: "pyvalue \<Rightarrow> exn + date option" where
  "to_date v =
     (case v of
        PyNone \<Rightarrow> Inr None
      | PyDatetime d \<Rightarrow> Inr (Some d)
      | PyDate d \<Rightarrow> Inr (Some d)
      | PyStr s \<Rightarrow> (case strptime_ymd s of None \<Rightarrow> Inl ValueError | Some d \<Rightarrow> Inr (Some d))
      | PyOther \<Rightarrow> Inl TypeError)"

text \<open>
  \<^verbatim>\<open>str.upper()\<close>, for the letters of ASCII; the case mapping of other code points is
  not modelled, they are left as they are.
\<close>

definition str_upper :: "pystr \<Rightarrow> pystr" where
  "str_upper s = map (\<lambda>c. if 97 \<le> c \<and> c \<le> 122 then c - 32 else c) s"

text \<open>
  Modelled from the spec: the definition of \<^verbatim>\<open>stock_future_view\<close> is in the database
  file, not in the repository; section 6 calls it a read view joining \<^verbatim>\<open>stock\<close> and
  \<^verbatim>\<open>stock_future\<close> by security id. The queries take its rows as they are: the columns
  they select and filter on, each but the id nullable.
\<close>

record view_row =
  v_id :: pystr
  v_name :: "pystr option"
  v_future :: "pystr option"
  v_mini_future :: "pystr option"
  v_mindate :: "date option"
  v_maxdate :: "date option"
  v_market :: "pystr option"

record StockInfo =
  si_id :: pystr
  si_name :: "pystr option"
  si_future :: "pystr option"
  si_mini_future :: "pystr option"
  si_mindate :: "date option"
  si_maxdate :: "date option"

text \<open>
  \<^verbatim>\<open>_build_stock_where\<close>: the conditions in the order they are appended, each as what it
  says of a row once its parameter is bound (a comparison with NULL is not true);
  \<open>Inl e\<close> when \<open>to_date\<close> raises.
\<close>

definition build_stock_where ::
  "pyvalue \<Rightarrow> pyvalue \<Rightarrow> pystr option \<Rightarrow> exn + (view_row \<Rightarrow> bool) list" where
  "build_stock_where begin_date end_date market =
     (case to_date begin_date of
        Inl e \<Rightarrow> Inl e
      | Inr b \<Rightarrow>
          (case to_date end_date of
             Inl e \<Rightarrow> Inl e
           | Inr en \<Rightarrow>
               Inr ([\<lambda>r. v_id r \<noteq> U ''TWSE'', \<lambda>r. v_id r \<noteq> U ''OTC'']
                    @ (case b of
                         None \<Rightarrow> []
                       | Some bd \<Rightarrow> [\<lambda>r. case v_mindate r of None \<Rightarrow> False | Some x \<Rightarrow> x \<le> bd])
                    @ (case en of
                         None \<Rightarrow> []
                       | Some ed \<Rightarrow> [\<lambda>r. case v_maxdate r of None \<Rightarrow> False | Some x \<Rightarrow> x \<ge> ed])
                    @ (case market of
                         None \<Rightarrow> []
                       | Some m0 \<Rightarrow>
                           if m0 = [] then []
                           else (let m1 = str_upper m0;
                                     m = (if m1 = U ''TPEX'' then U ''OTC'' else m1)
                                 in [\<lambda>r. v_market r = Some m])))))"

text \<open>\<^verbatim>\<open>" AND ".join(conditions)\<close> as the \<^verbatim>\<open>WHERE\<close> of a query.\<close>

definition where_holds :: "(view_row \<Rightarrow> bool) list \<Rightarrow> view_row \<Rightarrow> bool" where
  "where_holds conditions r \<longleftrightarrow> list_all (\<lambda>p. p r) conditions"

definition count_stocks ::
  "pyvalue \<Rightarrow> pyvalue \<Rightarrow> pystr option \<Rightarrow> view_row list \<Rightarrow> exn + nat" where
  "count_stocks begin_date end_date market stock_future_view =
     (case build_stock_where begin_date end_date market of
        Inl e \<Rightarrow> Inl e
      | Inr conditions \<Rightarrow> Inr (length (filter (where_holds conditions) stock_future_view)))"

text \<open>
  \<^verbatim>\<open>list_stocks\<close>: the records the generator yields, in the order of \<^verbatim>\<open>ORDER BY ID\<close> (the
  order of the code points), or the exception it raises.
\<close>

definition list_stocks ::
  "pyvalue \<Rightarrow> pyvalue \<Rightarrow> pystr option \<Rightarrow> view_row list \<Rightarrow> exn + StockInfo list" where
  "list_stocks begin_date end_date market stock_future_view =
     (case build_stock_where begin_date end_date market of
        Inl e \<Rightarrow> Inl e
      | Inr conditions \<Rightarrow>
          Inr (map (\<lambda>r. \<lparr>si_id = v_id r, si_name = v_name r, si_future = v_future r,
                         si_mini_future = v_mini_future r, si_mindate = v_mindate r,
                         si_maxdate = v_maxdate r\<rparr>)
                 (sort_key v_id (filter (where_holds conditions) stock_future_view))))"

section \<open>Statements of the specification and example inputs\<close>

text \<open>
  The form of a security id in the words of the specification: four digits and an
  optional trailing uppercase letter, less the ids of more than four characters that
  start with 7, and less the ids that start with 0 but not with 00, 01 or 02.
\<close>

definition claimed_id :: "pystr \<Rightarrow> bool" where
  "claimed_id s \<longleftrightarrow>
     (length s = 4 \<or> (length s = 5 \<and> in_range 65 90 (s ! 4))) \<and> list_all is_digit (take 4 s) \<and>
     \<not> (length s > 4 \<and> prefix (U ''7'') s) \<and>
     (if prefix (U ''0'') s
      then prefix (U ''00'') s \<or> prefix (U ''01'') s \<or> prefix (U ''02'') s else True)"

text \<open>
  The form the pattern of \<open>is_id\<close> is written for: one digit or more, then at most one
  uppercase letter, and nothing after it.
\<close>

definition digits_then_letter :: "pystr \<Rightarrow> bool" where
  "digits_then_letter s \<longleftrightarrow>
     takeWhile is_digit s \<noteq> [] \<and>
     (case dropWhile is_digit s of
        [] \<Rightarrow> True
      | c # rest \<Rightarrow> in_range 65 90 c \<and> rest = [])"

text \<open>The two exclusions of \<open>is_id\<close>, which it applies to every id.\<close>

definition excluded_id :: "pystr \<Rightarrow> bool" where
  "excluded_id s \<longleftrightarrow>
     (length s > 4 \<and> prefix (U ''7'') s) \<or>
     (prefix (U ''0'') s \<and>
      \<not> (prefix (U ''00'') s \<or> prefix (U ''01'') s \<or> prefix (U ''02'') s))"

text \<open>
  The two rows of the specification's validation example (the name is the three code
  points U+53F0, U+7A4D, U+96FB), the second row with the column of the change sign
  in its place, and that row with the volume 0, its only fault.
\<close>

definition twse_row_volume_zero :: "pystr list" where
  "twse_row_volume_zero =
     [U ''2330'', [21488, 31309, 38651], U ''0'', U ''100'', U ''500'', U ''---'', U ''600'',
      U ''590'', U ''605'', U ''0'', U ''X'']"

definition twse_row_ten_fields :: "pystr list" where
  "twse_row_ten_fields =
     [U ''2330'', [21488, 31309, 38651], U ''1000'', U ''100'', U ''500'', U ''600'', U ''610'',
      U ''590'', U ''605'', U ''1.5'']"

definition twse_row_eleven_fields :: "pystr list" where
  "twse_row_eleven_fields =
     [U ''2330'', [21488, 31309, 38651], U ''1000'', U ''100'', U ''500'', U ''600'', U ''610'',
      U ''590'', U ''605'', U ''+'', U ''1.5'']"

definition twse_row_only_volume_zero :: "pystr list" where
  "twse_row_only_volume_zero =
     [U ''2330'', [21488, 31309, 38651], U ''0'', U ''100'', U ''500'', U ''600'', U ''610'',
      U ''590'', U ''605'', U ''+'', U ''1.5'']"


definition candidate_2330 :: candidate where
  "candidate_2330 =
     \<lparr>c_id = U ''2330'', c_name = [21488, 31309, 38651], c_volume = 1000, c_turnover = 500,
      c_open = U ''600'', c_high = U ''610'', c_low = U ''590'', c_close = U ''605'',
      c_delta = Some (U ''1.5''), c_tickcount = 100\<rparr>"




text \<open>
  The walk of the orchestrator in the words of the specification: the syncs due on a
  date, the dates from the earlier start through today, and the syncs run one after the
  other until one raises.
\<close>

datatype market = TWSE | OTC



















section \<open>The security-id predicate\<close>

lemma re_match_id_iff: "re_match_id s \<longleftrightarrow> s \<noteq> [] \<and> is_digit (hd s)"
  by (cases s) (simp_all add: re_match_id_def)

lemma prefix_single: "prefix [a] s \<longleftrightarrow> s \<noteq> [] \<and> hd s = a"
  by (cases s) auto

lemma U_7: "U ''7'' = [55]"
  by (simp add: U_def)

lemma U_0: "U ''0'' = [48]"
  by (simp add: U_def)

lemma digits_then_letter_head: "digits_then_letter s \<Longrightarrow> s \<noteq> [] \<and> is_digit (hd s)"
  by (cases s) (auto simp: digits_then_letter_def split: if_splits)

text \<open>
  C5, as the specification states it, fails: \<open>is_id\<close> accepts \<^verbatim>\<open>00050\<close> (the claim's own
  example, five digits and no letter) and \<^verbatim>\<open>12\<close> (two digits), neither of which is
  four digits with an optional trailing uppercase letter.
\<close>

theorem is_id_form_counterexample:
  "is_id (U ''00050'') \<and> \<not> claimed_id (U ''00050'') \<and>
   is_id (U ''12'') \<and> \<not> claimed_id (U ''12'')"
  by code_simp

text \<open>
  C5, amended: \<open>is_id\<close> accepts every id of one or more digits with an optional
  trailing uppercase letter that no exclusion names; it rejects the empty id, every id
  that does not start with a digit, every id of more than four characters that starts
  with 7, and every id that starts with 0 but not with 00, 01 or 02. So \<^verbatim>\<open>2330\<close> and
  \<^verbatim>\<open>00050\<close> are accepted, \<^verbatim>\<open>7011A\<close> and \<^verbatim>\<open>03\<close> are rejected.
\<close>

theorem is_id_design:
  "(\<forall>s. digits_then_letter s \<and> \<not> excluded_id s \<longrightarrow> is_id s) \<and>
   (\<forall>s. s = [] \<or> \<not> is_digit (hd s) \<or> excluded_id s \<longrightarrow> \<not> is_id s) \<and>
   is_id (U ''2330'') \<and> is_id (U ''00050'') \<and> \<not> is_id (U ''7011A'') \<and> \<not> is_id (U ''03'')"
proof -
  have general: "is_id s \<longleftrightarrow> s \<noteq> [] \<and> is_digit (hd s) \<and> \<not> excluded_id s" for s
    unfolding is_id_def re_match_id_iff excluded_id_def by auto
  have accept: "\<forall>s. digits_then_letter s \<and> \<not> excluded_id s \<longrightarrow> is_id s"
    using general digits_then_letter_head by blast
  have reject: "\<forall>s. s = [] \<or> \<not> is_digit (hd s) \<or> excluded_id s \<longrightarrow> \<not> is_id s"
    using general by blast
  have examples:
    "is_id (U ''2330'') \<and> is_id (U ''00050'') \<and> \<not> is_id (U ''7011A'') \<and> \<not> is_id (U ''03'')"
    by code_simp
  from accept reject examples show ?thesis by blast
qed

text \<open>
  C5, witness: \<^verbatim>\<open>1101B\<close> is four digits and a letter and no exclusion names it, so it is
  accepted; \<^verbatim>\<open>7011A\<close> is excluded, so it is rejected.
\<close>

theorem is_id_design_witness:
  "digits_then_letter (U ''1101B'') \<and> \<not> excluded_id (U ''1101B'') \<and> is_id (U ''1101B'') \<and>
   excluded_id (U ''7011A'') \<and> \<not> is_id (U ''7011A'')"
proof -
  have h: "digits_then_letter (U ''1101B'') \<and> \<not> excluded_id (U ''1101B'') \<and>
           excluded_id (U ''7011A'')"
    by (simp add: digits_then_letter_def excluded_id_def is_digit_def digit_value_def
        decimal_zeros_def in_range_def U_def)
  with is_id_design show ?thesis
    by blast
qed

section \<open>The TWSE row validation\<close>

text \<open>
  C4, as the specification states it, fails: its second row has ten fields, and the row
  loop skips every row of fewer than eleven.
\<close>

theorem twse_ten_field_row_counterexample:
  "length twse_row_ten_fields = 10 \<and> parse_twse_row twse_row_ten_fields = Inr None"
  by code_simp

lemma twse_short_row: "length row < 11 \<Longrightarrow> parse_twse_row row = Inr None"
  by (simp add: parse_twse_row_def)

lemma twse_no_volume:
  "safe_int (row ! 2) = Some v \<Longrightarrow> v \<le> 0 \<Longrightarrow> parse_twse_row row = Inr None"
  by (simp add: parse_twse_row_def)

text \<open>
  C4, amended: the row validation of the TWSE report skips, without raising, the first
  row because its volume field is 0: it skips every row whose volume reads as an
  integer that is not positive, whatever else the row holds, as it does the row whose
  only fault is the volume 0. It skips the second row too, as the specification writes
  it, because that row has ten fields and every row of fewer than eleven fields is
  skipped. It accepts that row once the change-sign column stands before the change
  (eleven fields), with the delta \<^verbatim>\<open>1.5\<close>.
\<close>

theorem twse_validator_examples:
  "(\<forall>row v. safe_int (row ! 2) = Some v \<and> v \<le> 0 \<longrightarrow> parse_twse_row row = Inr None) \<and>
   (\<forall>row. length row < 11 \<longrightarrow> parse_twse_row row = Inr None) \<and>
   safe_int (twse_row_volume_zero ! 2) = Some 0 \<and>
   parse_twse_row twse_row_volume_zero = Inr None \<and>
   parse_twse_row twse_row_only_volume_zero = Inr None \<and>
   parse_twse_row twse_row_ten_fields = Inr None \<and>
   parse_twse_row twse_row_eleven_fields = Inr (Some candidate_2330) \<and>
   c_delta candidate_2330 = Some (U ''1.5'')"
proof -
  have examples:
    "safe_int (twse_row_volume_zero ! 2) = Some 0 \<and>
     parse_twse_row twse_row_volume_zero = Inr None \<and>
     parse_twse_row twse_row_only_volume_zero = Inr None \<and>
     parse_twse_row twse_row_ten_fields = Inr None \<and>
     parse_twse_row twse_row_eleven_fields = Inr (Some candidate_2330) \<and>
     c_delta candidate_2330 = Some (U ''1.5'')"
    by code_simp
  with twse_short_row twse_no_volume show ?thesis
    by blast
qed

text \<open>
  C4, witness: the volume field of the first row reads 0 and the second row has ten
  fields, so both are skipped.
\<close>

theorem twse_validator_examples_witness:
  "safe_int (twse_row_volume_zero ! 2) = Some 0 \<and> (0 :: int) \<le> 0 \<and>
   parse_twse_row twse_row_volume_zero = Inr None \<and>
   length twse_row_ten_fields < 11 \<and>
   parse_twse_row twse_row_ten_fields = Inr None"
proof -
  have h: "safe_int (twse_row_volume_zero ! 2) = Some 0 \<and> length twse_row_ten_fields < 11"
    by code_simp
  from twse_validator_examples
  have v: "\<forall>row v. safe_int (row ! 2) = Some v \<and> v \<le> 0 \<longrightarrow> parse_twse_row row = Inr None"
    and s: "\<forall>row. length row < 11 \<longrightarrow> parse_twse_row row = Inr None"
    by blast+
  from h v have "parse_twse_row twse_row_volume_zero = Inr None"
    by (metis order_refl)
  moreover from h s have "parse_twse_row twse_row_ten_fields = Inr None"
    by blast
  ultimately show ?thesis
    using h by simp
qed

section \<open>Counting and listing\<close>

text \<open>
  C10: for all arguments and every content of the view, \<open>count_stocks\<close> returns the
  number of records that \<open>list_stocks\<close> yields, and raises what \<open>list_stocks\<close>
  raises: both filter the rows of the view by the conditions of \<open>build_stock_where\<close>,
  which exclude the two marker ids.
\<close>

theorem count_stocks_list_stocks:
  "count_stocks begin_date end_date market stock_future_view =
     (case list_stocks begin_date end_date market stock_future_view of
        Inl e \<Rightarrow> Inl e
      | Inr infos \<Rightarrow> Inr (length infos))"
  by (simp add: count_stocks_def list_stocks_def split: sum.split)

section \<open>What a single-day sync does to the store\<close>



lemma insert_or_ignore_stock_quote:
  "quote (snd (insert_or_ignore_stock i n m a b db)) = quote db"
  by (simp add: insert_or_ignore_stock_def)


lemma update_stock_maxdate_quote: "quote (update_stock_maxdate d i db) = quote db"
  by (simp add: update_stock_maxdate_def)





lemma upsert_market_marker_quote:
  "quote (upsert_market_marker m d n db) =
     filter (\<lambda>r. \<not> (q_id r = m \<and> q_date r = d)) (quote db) @ [marker_quote m d n]"
  by (simp add: upsert_market_marker_def insert_or_replace_quote_def update_stock_maxdate_quote
      insert_or_ignore_stock_quote)

lemma select_marker_upsert: "select_marker (upsert_market_marker m d n db) m d"
  by (simp add: select_marker_def upsert_market_marker_quote marker_quote_def)
































section \<open>Idempotent re-run\<close>



section \<open>Bounded retry\<close>



section \<open>The marker and the commit\<close>



section \<open>Forced replacement\<close>




section \<open>The last observed date\<close>


section \<open>The orchestrator\<close>












end
